theory Spec2Isabelle
  imports Main
begin

section \<open>JavaScript collections\<close>

text \<open>
  A JavaScript \<^verbatim>\<open>Set\<close> keeps its elements unique and iterates them in insertion order;
  \<^verbatim>\<open>Array.from(set)\<close> yields that order. It is modelled as a list: \<^verbatim>\<open>add\<close> appends an
  element that is not there yet, \<^verbatim>\<open>delete\<close> removes it. A \<^verbatim>\<open>Map\<close> is an association list
  in insertion order: \<^verbatim>\<open>set\<close> replaces the value of an existing key where it stands and
  appends a new key, \<^verbatim>\<open>get\<close> answers \<^verbatim>\<open>undefined\<close> (\<open>None\<close>) for a missing key. MobX's
  \<^verbatim>\<open>observable.map\<close> and \<^verbatim>\<open>observable.set\<close> are taken to behave as the built-in
  collections they wrap.
\<close>

type_synonym 'v jsset = "'v list"

type_synonym ('k, 'v) jsmap = "('k \<times> 'v) list"

definition Set_add :: "'v \<Rightarrow> 'v jsset \<Rightarrow> 'v jsset" where
  "Set_add v s = (if v \<in> set s then s else s @ [v])"

definition Set_delete :: "'v \<Rightarrow> 'v jsset \<Rightarrow> 'v jsset" where
  "Set_delete v s = removeAll v s"

definition Set_size :: "'v jsset \<Rightarrow> nat" where
  "Set_size s = length s"

fun Map_get :: "('k, 'v) jsmap \<Rightarrow> 'k \<Rightarrow> 'v option" where
  "Map_get [] k = None"
| "Map_get ((k', v) # m) k = (if k' = k then Some v else Map_get m k)"

fun Map_set :: "'k \<Rightarrow> 'v \<Rightarrow> ('k, 'v) jsmap \<Rightarrow> ('k, 'v) jsmap" where
  "Map_set k v [] = [(k, v)]"
| "Map_set k v ((k', v') # m) = (if k' = k then (k, v) # m else (k', v') # Map_set k v m)"

fun Map_delete :: "'k \<Rightarrow> ('k, 'v) jsmap \<Rightarrow> ('k, 'v) jsmap" where
  "Map_delete k [] = []"
| "Map_delete k ((k', v) # m) = (if k' = k then Map_delete k m else (k', v) # Map_delete k m)"

definition Map_keys :: "('k, 'v) jsmap \<Rightarrow> 'k list" where
  "Map_keys m = map fst m"

section \<open>DefaultViewModelRegistry and ViewModelLocator\<close>

text \<open>
  The registry's only field is \<^verbatim>\<open>_buckets\<close>, a map from identifier to the set of
  instances registered under it; the registry state is the value of that field. The
  mutation \<^verbatim>\<open>instances.add(model)\<close> acts on the set object the map holds, so in the
  model the changed set is written back under the same key (which keeps its place).
\<close>

type_synonym ('k, 'v) registry = "('k, 'v jsset) jsmap"

definition new_registry :: "('k, 'v) registry" where
  "new_registry = []"

definition addInstance :: "'k \<Rightarrow> 'v \<Rightarrow> ('k, 'v) registry \<Rightarrow> ('k, 'v) registry" where
  "addInstance identifier model buckets =
     (let (instances, buckets1) =
            (case Map_get buckets identifier of
               None \<Rightarrow> ([], Map_set identifier [] buckets)
             | Some s \<Rightarrow> (s, buckets))
      in Map_set identifier (Set_add model instances) buckets1)"

definition removeInstance :: "'k \<Rightarrow> 'v \<Rightarrow> ('k, 'v) registry \<Rightarrow> ('k, 'v) registry" where
  "removeInstance identifier model buckets =
     (case Map_get buckets identifier of
        None \<Rightarrow> buckets
      | Some s \<Rightarrow>
          (let instances = Set_delete model s;
               buckets1 = Map_set identifier instances buckets
           in if Set_size instances = 0 then Map_delete identifier buckets1 else buckets1))"

definition instances :: "('k, 'v) registry \<Rightarrow> ('k, 'v jsset) jsmap" where
  "instances buckets = buckets"

definition locateMany :: "('k, 'v) registry \<Rightarrow> 'k \<Rightarrow> 'v list" where
  "locateMany viewModelRegistry vmIdentifier =
     (case Map_get (instances viewModelRegistry) vmIdentifier of
        Some s \<Rightarrow> s
      | None \<Rightarrow> [])"


text \<open>
  The registry invariant of the specification: an identifier is a key of the map exactly
  when instances are registered under it. A missing key has no instances by the definition
  of \<open>locateMany\<close>, so the invariant says that no key holds an empty set.
\<close>

definition registry_inv :: "('k, 'v) registry \<Rightarrow> bool" where
  "registry_inv buckets = list_all (\<lambda>k. locateMany buckets k \<noteq> []) (Map_keys buckets)"

section \<open>View models, props and the observable world\<close>

text \<open>
  A view model is an object, given by its identity \<open>oid\<close> and by which of the optional
  lifecycle methods of \<^verbatim>\<open>Partial<BoundViewModelLifecycle>\<close> it has. Equality of these
  values stands for identity of objects: different objects carry different \<open>oid\<close>s. The
  three selectors the source passes to \<^verbatim>\<open>notifyOfViewLifecycle\<close> (\<^verbatim>\<open>x => x.onActivate\<close>,
  \<^verbatim>\<open>x => x.onViewLoaded\<close>, \<^verbatim>\<open>x => x.onDeactivate\<close>) are the constructors of \<open>lifecycle\<close>,
  applied by \<open>funcResolver\<close>.
\<close>

record vm =
  oid :: nat
  onActivate :: bool
  onViewLoaded :: bool
  onDeactivate :: bool

datatype lifecycle = OnActivate | OnViewLoaded | OnDeactivate

fun funcResolver :: "lifecycle \<Rightarrow> vm \<Rightarrow> bool" where
  "funcResolver OnActivate x = onActivate x"
| "funcResolver OnViewLoaded x = onViewLoaded x"
| "funcResolver OnDeactivate x = onDeactivate x"

text \<open>
  \<^verbatim>\<open>BinderProps\<close>. The store \<open>'s\<close> is whatever \<^verbatim>\<open>onBind\<close> and \<^verbatim>\<open>onUnbind\<close> act on (the
  registry, once \<^verbatim>\<open>bindViewModel\<close> has wired them). A resolver is external code that may
  answer differently each time it is called, so it also receives the number of resolver
  calls made before. Its \<^verbatim>\<open>props\<close> parameter is optional (\<^verbatim>\<open>useBinder\<close> leaves it out).
  \<open>others\<close> stands for the remaining props, \<^verbatim>\<open>viewComponent\<close> among them; it is what
  the Binder hands the resolver as \<^verbatim>\<open>props\<close>. An absent \<^verbatim>\<open>viewModel\<close> prop (\<^verbatim>\<open>undefined\<close>
  or \<^verbatim>\<open>null\<close>) is \<open>None\<close>; an object is always truthy.
\<close>

type_synonym ('k, 'p) ViewModelResolver = "'k \<Rightarrow> 'p option \<Rightarrow> nat \<Rightarrow> vm"

record ('k, 'p, 's) BinderProps =
  viewModel :: "vm option"
  viewModelIdentifier :: 'k
  viewModelResolver :: "('k, 'p) ViewModelResolver"
  onUnbind :: "vm \<Rightarrow> 's \<Rightarrow> 's"
  onBind :: "vm \<Rightarrow> 's \<Rightarrow> 's"
  others :: 'p

datatype ('k, 'p, 's) arg =
    PropsArg "('k, 'p, 's) BinderProps"
  | RefArg
  | ArrayArg "('k, 'p, 's) arg list"

text \<open>
  Every call the components make to code outside them is recorded, in order, together with
  the store as that code finds it on entry: a lifecycle method of a view model with its
  argument list, the resolver, \<^verbatim>\<open>onBind\<close>, \<^verbatim>\<open>onUnbind\<close>, and the re-render that React makes
  when \<^verbatim>\<open>setState\<close> is applied. Lifecycle methods and resolvers are opaque: the model takes
  them not to change the store themselves.
\<close>

datatype ('k, 'p, 's) event =
    Called lifecycle vm "('k, 'p, 's) arg list" 's
  | Resolved 'k "'p option" vm 's
  | Bound vm 's
  | Unbound vm 's
  | StateSet vm 's


fun is_Resolved :: "('k, 'p, 's) event \<Rightarrow> bool" where
  "is_Resolved (Resolved k p x s) = True"
| "is_Resolved e = False"

fun is_Called :: "('k, 'p, 's) event \<Rightarrow> bool" where
  "is_Called (Called f x args s) = True"
| "is_Called e = False"

fun dispatches :: "lifecycle \<Rightarrow> ('k, 'p, 's) event \<Rightarrow> bool" where
  "dispatches f (Called g x args s) = (f = g)"
| "dispatches f e = False"

record ('k, 'p, 's) world =
  store :: 's
  trace :: "('k, 'p, 's) event list"

definition emit :: "('k, 'p, 's) event \<Rightarrow> ('k, 'p, 's) world \<Rightarrow> ('k, 'p, 's) world" where
  "emit e w = w\<lparr>trace := trace w @ [e]\<rparr>"

definition call_resolver ::
  "('k, 'p) ViewModelResolver \<Rightarrow> 'k \<Rightarrow> 'p option \<Rightarrow> ('k, 'p, 's) world \<Rightarrow> vm \<times> ('k, 'p, 's) world" where
  "call_resolver r k p w =
     (let x = r k p (length (filter is_Resolved (trace w)))
      in (x, emit (Resolved k p x (store w)) w))"

definition call_onBind :: "(vm \<Rightarrow> 's \<Rightarrow> 's) \<Rightarrow> vm \<Rightarrow> ('k, 'p, 's) world \<Rightarrow> ('k, 'p, 's) world" where
  "call_onBind f x w = (emit (Bound x (store w)) w)\<lparr>store := f x (store w)\<rparr>"

definition call_onUnbind :: "(vm \<Rightarrow> 's \<Rightarrow> 's) \<Rightarrow> vm \<Rightarrow> ('k, 'p, 's) world \<Rightarrow> ('k, 'p, 's) world" where
  "call_onUnbind f x w = (emit (Unbound x (store w)) w)\<lparr>store := f x (store w)\<rparr>"

section \<open>Binder\<close>

text \<open>
  A Binder instance: its current props and its state \<^verbatim>\<open>{ model }\<close>. Each method takes the
  world and returns it changed.
\<close>

record ('k, 'p, 's) Binder =
  props :: "('k, 'p, 's) BinderProps"
  model :: vm

definition resolveModel ::
  "('k, 'p, 's) BinderProps \<Rightarrow> ('k, 'p, 's) world \<Rightarrow> vm \<times> ('k, 'p, 's) world" where
  "resolveModel ps w =
     (case viewModel ps of
        Some x \<Rightarrow> (x, w)
      | None \<Rightarrow> call_resolver (viewModelResolver ps) (viewModelIdentifier ps) (Some (others ps)) w)"

definition notifyOfViewLifecycle ::
  "lifecycle \<Rightarrow> ('k, 'p, 's) arg list \<Rightarrow> ('k, 'p, 's) Binder \<Rightarrow> ('k, 'p, 's) world
     \<Rightarrow> ('k, 'p, 's) world" where
  "notifyOfViewLifecycle f args this w =
     (let bindingLifecycle = model this;
          action = funcResolver f bindingLifecycle
      in if action then emit (Called f bindingLifecycle args (store w)) w else w)"

definition Binder_constructor ::
  "('k, 'p, 's) BinderProps \<Rightarrow> ('k, 'p, 's) world \<Rightarrow> ('k, 'p, 's) Binder \<times> ('k, 'p, 's) world" where
  "Binder_constructor ps w =
     (let (x, w1) = resolveModel ps w;
          this = \<lparr>props = ps, model = x\<rparr>
      in (this, call_onBind (onBind (props this)) x w1))"

definition componentDidMount ::
  "('k, 'p, 's) Binder \<Rightarrow> ('k, 'p, 's) world \<Rightarrow> ('k, 'p, 's) world" where
  "componentDidMount this w =
     (let w1 = notifyOfViewLifecycle OnActivate [PropsArg (props this)] this w
      in notifyOfViewLifecycle OnViewLoaded [RefArg] this w1)"



text \<open>
  What React does with a Binder element: on mount it constructs the component, renders it
  and calls \<^verbatim>\<open>componentDidMount\<close>; on an update of the props it calls
  \<^verbatim>\<open>componentDidUpdate\<close> with the previous props; on unmount \<^verbatim>\<open>componentWillUnmount\<close>.
\<close>

definition Binder_mount ::
  "('k, 'p, 's) BinderProps \<Rightarrow> ('k, 'p, 's) world \<Rightarrow> ('k, 'p, 's) Binder \<times> ('k, 'p, 's) world" where
  "Binder_mount ps w = (let (this, w1) = Binder_constructor ps w in (this, componentDidMount this w1))"


subsection \<open>The Binder of the second source file\<close>

text \<open>
  The repository's other source file holds an earlier Binder. It differs in two places:
  \<^verbatim>\<open>notifyOfViewLifecycle\<close> ends in \<^verbatim>\<open>action.call(bindingLifecycle, args)\<close>, which hands the
  method the rest array itself as its one argument, and \<^verbatim>\<open>onActivate\<close> is dispatched from
  \<^verbatim>\<open>componentWillMount\<close>, \<^verbatim>\<open>componentDidMount\<close> dispatching \<^verbatim>\<open>onViewLoaded\<close> alone. Its
  constructor reads as the one above.
\<close>

definition notifyOfViewLifecycle_part000 ::
  "lifecycle \<Rightarrow> ('k, 'p, 's) arg list \<Rightarrow> ('k, 'p, 's) Binder \<Rightarrow> ('k, 'p, 's) world
     \<Rightarrow> ('k, 'p, 's) world" where
  "notifyOfViewLifecycle_part000 f args this w =
     (let bindingLifecycle = model this;
          action = funcResolver f bindingLifecycle
      in if action then emit (Called f bindingLifecycle [ArrayArg args] (store w)) w else w)"

definition componentWillMount_part000 ::
  "('k, 'p, 's) Binder \<Rightarrow> ('k, 'p, 's) world \<Rightarrow> ('k, 'p, 's) world" where
  "componentWillMount_part000 this w =
     notifyOfViewLifecycle_part000 OnActivate [PropsArg (props this)] this w"

definition componentDidMount_part000 ::
  "('k, 'p, 's) Binder \<Rightarrow> ('k, 'p, 's) world \<Rightarrow> ('k, 'p, 's) world" where
  "componentDidMount_part000 this w =
     notifyOfViewLifecycle_part000 OnViewLoaded [RefArg] this w"

definition Binder_mount_part000 ::
  "('k, 'p, 's) BinderProps \<Rightarrow> ('k, 'p, 's) world \<Rightarrow> ('k, 'p, 's) Binder \<times> ('k, 'p, 's) world" where
  "Binder_mount_part000 ps w =
     (let (this, w1) = Binder_constructor ps w;
          w2 = componentWillMount_part000 this w1
      in (this, componentDidMount_part000 this w2))"

section \<open>Context, decorator and hooks\<close>

text \<open>
  The \<^verbatim>\<open>ViewModelRegistry\<close> interface is a record of its members over the store they act
  on; \<open>DefaultViewModelRegistry\<close> implements it on the registry state. The context value
  \<^verbatim>\<open>MxvmContextProps\<close> holds an optional resolver and an optional registry object, both
  absent in the default context \<^verbatim>\<open>{}\<close>.
\<close>

record ('k, 's) ViewModelRegistry =
  reg_addInstance :: "'k \<Rightarrow> vm \<Rightarrow> 's \<Rightarrow> 's"
  reg_removeInstance :: "'k \<Rightarrow> vm \<Rightarrow> 's \<Rightarrow> 's"
  reg_instances :: "'s \<Rightarrow> ('k, vm jsset) jsmap"

definition DefaultViewModelRegistry :: "('k, ('k, vm) registry) ViewModelRegistry" where
  "DefaultViewModelRegistry =
     \<lparr>reg_addInstance = addInstance, reg_removeInstance = removeInstance,
      reg_instances = instances\<rparr>"

record ('k, 'p, 's) MxvmContextProps =
  resolver :: "('k, 'p) ViewModelResolver option"
  registry :: "('k, 's) ViewModelRegistry option"

definition default_context :: "('k, 'p, 's) MxvmContextProps" where
  "default_context = \<lparr>resolver = None, registry = None\<rparr>"

datatype error = Error string

text \<open>
  \<^verbatim>\<open>bindViewModel(vmIdentifier)(component)\<close> is a function component; rendered with
  \<^verbatim>\<open>{ model, ...props }\<close> under a context value it either throws or returns a Binder
  element, which is given here by the element's props. The outer \<^verbatim>\<open>props\<close> are taken not to
  reuse the names of the Binder's own props, so spreading them last overrides nothing.
\<close>

definition bindViewModel ::
  "'k \<Rightarrow> vm option \<times> 'p \<Rightarrow> ('k, 'p, 's) MxvmContextProps \<Rightarrow> error + ('k, 'p, 's) BinderProps" where
  "bindViewModel vmIdentifier = (\<lambda>(model_prop, rest) ctx.
     case resolver ctx of
       None \<Rightarrow> Inl (Error ''Resolver has not been provided!'')
     | Some res \<Rightarrow>
         (case registry ctx of
            None \<Rightarrow> Inl (Error ''Registry has not been provided!'')
          | Some reg \<Rightarrow>
              Inr \<lparr>viewModel = model_prop,
                   viewModelIdentifier = vmIdentifier,
                   viewModelResolver = res,
                   onUnbind = (\<lambda>vm. reg_removeInstance reg vmIdentifier vm),
                   onBind = (\<lambda>vm. reg_addInstance reg vmIdentifier vm),
                   others = rest\<rparr>))"

record ('k, 'p, 's) UseBinderProps =
  u_viewModelIdentifier :: 'k
  u_viewModelResolver :: "('k, 'p) ViewModelResolver"
  u_onUnbind :: "vm \<Rightarrow> 's \<Rightarrow> 's"
  u_onBind :: "vm \<Rightarrow> 's \<Rightarrow> 's"

text \<open>
  What React keeps for a component that calls \<^verbatim>\<open>useBinder\<close>: the \<^verbatim>\<open>useState\<close> cell (empty
  before the first render) and the effect that \<^verbatim>\<open>useEffect(..., [])\<close> registered, given by
  the variables its closure captured (the props and the model of the render that
  registered it). The model is written \<open>x\<close>, \<open>model\<close> being the Binder's state field.
  \<^verbatim>\<open>useState(init)\<close> evaluates its argument on every render and keeps the
  first value; an effect with the dependency list \<^verbatim>\<open>[]\<close> is registered by the first render
  only, runs once after that render, and its cleanup runs at unmount.
\<close>

record ('k, 'p, 's) hooks =
  state_cell :: "vm option"
  effect_cell :: "(('k, 'p, 's) UseBinderProps \<times> vm) option"

definition no_hooks :: "('k, 'p, 's) hooks" where
  "no_hooks = \<lparr>state_cell = None, effect_cell = None\<rparr>"

definition hook_notifyOfViewLifecycle ::
  "lifecycle \<Rightarrow> vm \<Rightarrow> ('k, 'p, 's) world \<Rightarrow> ('k, 'p, 's) world" where
  "hook_notifyOfViewLifecycle f x w =
     (let bindingLifecycle = x;
          action = funcResolver f bindingLifecycle
      in if action then emit (Called f bindingLifecycle [] (store w)) w else w)"

definition useBinder ::
  "('k, 'p, 's) UseBinderProps \<Rightarrow> ('k, 'p, 's) hooks \<Rightarrow> ('k, 'p, 's) world
     \<Rightarrow> vm \<times> ('k, 'p, 's) hooks \<times> ('k, 'p, 's) world" where
  "useBinder ps h w =
     (let (initial, w1) =
            call_resolver (u_viewModelResolver ps) (u_viewModelIdentifier ps) None w;
          x = (case state_cell h of None \<Rightarrow> initial | Some x0 \<Rightarrow> x0);
          effect = (case effect_cell h of None \<Rightarrow> Some (ps, x) | Some e \<Rightarrow> Some e)
      in (x, \<lparr>state_cell = Some x, effect_cell = effect\<rparr>, w1))"

definition useBinder_effect ::
  "('k, 'p, 's) UseBinderProps \<times> vm \<Rightarrow> ('k, 'p, 's) world \<Rightarrow> ('k, 'p, 's) world" where
  "useBinder_effect = (\<lambda>(ps, x) w.
     hook_notifyOfViewLifecycle OnActivate x (call_onBind (u_onBind ps) x w))"

definition useBinder_cleanup ::
  "('k, 'p, 's) UseBinderProps \<times> vm \<Rightarrow> ('k, 'p, 's) world \<Rightarrow> ('k, 'p, 's) world" where
  "useBinder_cleanup = (\<lambda>(ps, x) w.
     call_onUnbind (u_onUnbind ps) x (hook_notifyOfViewLifecycle OnDeactivate x w))"

definition useViewModel ::
  "'k \<Rightarrow> ('k, 'p, 's) MxvmContextProps \<Rightarrow> ('k, 'p, 's) hooks \<Rightarrow> ('k, 'p, 's) world
     \<Rightarrow> error + vm \<times> ('k, 'p, 's) hooks \<times> ('k, 'p, 's) world" where
  "useViewModel vmIdentifier ctx h w =
     (case resolver ctx of
        None \<Rightarrow> Inl (Error ''Resolver has not been provided!'')
      | Some res \<Rightarrow>
          (case registry ctx of
             None \<Rightarrow> Inl (Error ''Registry has not been provided!'')
           | Some reg \<Rightarrow>
               Inr (useBinder
                      \<lparr>u_viewModelIdentifier = vmIdentifier,
                       u_viewModelResolver = res,
                       u_onUnbind = (\<lambda>vm. reg_removeInstance reg vmIdentifier vm),
                       u_onBind = (\<lambda>vm. reg_addInstance reg vmIdentifier vm)\<rparr> h w)))"

text \<open>
  One life of a component that calls \<^verbatim>\<open>useBinder\<close>: the first render followed by its
  effect, any number of further renders (each with the props of that render), and the
  unmount, which runs the cleanup of the registered effect. The result is the model each
  render returned and the world at the end.
\<close>

definition hook_mount ::
  "('k, 'p, 's) UseBinderProps \<Rightarrow> ('k, 'p, 's) world
     \<Rightarrow> vm \<times> ('k, 'p, 's) hooks \<times> ('k, 'p, 's) world" where
  "hook_mount ps w =
     (let (x, h, w1) = useBinder ps no_hooks w
      in (x, h, (case effect_cell h of None \<Rightarrow> w1 | Some e \<Rightarrow> useBinder_effect e w1)))"

fun hook_rerenders ::
  "('k, 'p, 's) UseBinderProps list \<Rightarrow> ('k, 'p, 's) hooks \<Rightarrow> ('k, 'p, 's) world
     \<Rightarrow> vm list \<times> ('k, 'p, 's) hooks \<times> ('k, 'p, 's) world" where
  "hook_rerenders [] h w = ([], h, w)"
| "hook_rerenders (ps # pss) h w =
     (let (x, h1, w1) = useBinder ps h w;
          (xs, h2, w2) = hook_rerenders pss h1 w1
      in (x # xs, h2, w2))"

definition hook_unmount :: "('k, 'p, 's) hooks \<Rightarrow> ('k, 'p, 's) world \<Rightarrow> ('k, 'p, 's) world" where
  "hook_unmount h w = (case effect_cell h of None \<Rightarrow> w | Some e \<Rightarrow> useBinder_cleanup e w)"

definition hook_cycle ::
  "('k, 'p, 's) UseBinderProps \<Rightarrow> ('k, 'p, 's) UseBinderProps list \<Rightarrow> ('k, 'p, 's) world
     \<Rightarrow> vm list \<times> ('k, 'p, 's) world" where
  "hook_cycle ps pss w =
     (let (x, h, w1) = hook_mount ps w;
          (xs, h1, w2) = hook_rerenders pss h w1
      in (x # xs, hook_unmount h1 w2))"

text \<open>The events a step added to the trace, and which of the given instances a registry holds.\<close>

definition emitted :: "('k, 'p, 's) world \<Rightarrow> ('k, 'p, 's) world \<Rightarrow> ('k, 'p, 's) event list" where
  "emitted w w' = drop (length (trace w)) (trace w')"




section \<open>Objects for the worked scenarios\<close>

text \<open>
  Two view models with all three lifecycle methods, one with none, a resolver that always
  answers with the same object (a singleton binding), a resolver that makes a new object
  at every call (a factory), a context that provides a resolver and the default registry,
  the props \<open>bindViewModel ''UserVM''\<close> builds under that context, and a world that starts
  with a given store and no events.
\<close>

definition u1 :: vm where
  "u1 = \<lparr>oid = 1, onActivate = True, onViewLoaded = True, onDeactivate = True\<rparr>"

definition u2 :: vm where
  "u2 = \<lparr>oid = 2, onActivate = True, onViewLoaded = True, onDeactivate = True\<rparr>"

definition bare :: vm where
  "bare = \<lparr>oid = 3, onActivate = False, onViewLoaded = False, onDeactivate = False\<rparr>"

definition singleton_resolver :: "vm \<Rightarrow> (string, unit) ViewModelResolver" where
  "singleton_resolver x = (\<lambda>k p n. x)"

definition factory_resolver :: "(string, unit) ViewModelResolver" where
  "factory_resolver =
     (\<lambda>k p n. \<lparr>oid = 10 + n, onActivate = True, onViewLoaded = True, onDeactivate = True\<rparr>)"

definition provided ::
  "(string, unit) ViewModelResolver \<Rightarrow> (string, unit, (string, vm) registry) MxvmContextProps" where
  "provided res = \<lparr>resolver = Some res, registry = Some DefaultViewModelRegistry\<rparr>"

definition UserVM_props ::
  "vm option \<Rightarrow> (string, unit) ViewModelResolver
     \<Rightarrow> (string, unit, (string, vm) registry) BinderProps" where
  "UserVM_props mp res =
     \<lparr>viewModel = mp,
      viewModelIdentifier = ''UserVM'',
      viewModelResolver = res,
      onUnbind = (\<lambda>vm. reg_removeInstance DefaultViewModelRegistry ''UserVM'' vm),
      onBind = (\<lambda>vm. reg_addInstance DefaultViewModelRegistry ''UserVM'' vm),
      others = ()\<rparr>"

definition world_of :: "'s \<Rightarrow> ('k, 'p, 's) world" where
  "world_of s = \<lparr>store = s, trace = []\<rparr>"



section \<open>Facts about the collections\<close>

lemma Map_get_set: "Map_get (Map_set k v m) k' = (if k' = k then Some v else Map_get m k')"
  by (induction m) auto

lemma Map_get_delete: "Map_get (Map_delete k m) k' = (if k' = k then None else Map_get m k')"
  by (induction m) auto

lemma Map_get_keys: "(Map_get m k \<noteq> None) = (k \<in> set (Map_keys m))"
  by (induction m) (auto simp: Map_keys_def)

lemma Map_set_same: "Map_get m k = Some v \<Longrightarrow> Map_set k v m = m"
  by (induction m) (auto split: if_splits)

lemma Map_keys_set: "set (Map_keys (Map_set k v m)) = insert k (set (Map_keys m))"
  by (rule set_eqI) (simp add: Map_get_keys [symmetric] Map_get_set)

lemma Map_keys_delete: "set (Map_keys (Map_delete k m)) = set (Map_keys m) - {k}"
  by (rule set_eqI) (simp add: Map_get_keys [symmetric] Map_get_delete)


lemma Set_add_nonempty: "Set_add v s \<noteq> []"
  by (auto simp: Set_add_def)

lemma Set_add_present: "v \<in> set s \<Longrightarrow> Set_add v s = s"
  by (simp add: Set_add_def)

lemma distinct_Set_add: "distinct s \<Longrightarrow> distinct (Set_add v s)"
  by (simp add: Set_add_def)

lemma distinct_Set_delete: "distinct s \<Longrightarrow> distinct (Set_delete v s)"
  by (simp add: Set_delete_def distinct_removeAll)


lemma Set_delete_last: "set s \<subseteq> {v} \<Longrightarrow> Set_delete v s = []"
  by (induction s) (auto simp: Set_delete_def)

lemma Set_delete_absent: "v \<notin> set s \<Longrightarrow> Set_delete v s = s"
  by (simp add: Set_delete_def)

section \<open>Lookups after registry operations\<close>

lemma locateMany_addInstance:
  "locateMany (addInstance k v r) k' =
     (if k' = k then Set_add v (locateMany r k) else locateMany r k')"
  by (cases "Map_get r k") (simp_all add: locateMany_def instances_def addInstance_def Map_get_set)

lemma locateMany_removeInstance:
  "locateMany (removeInstance k v r) k' =
     (if k' = k then Set_delete v (locateMany r k) else locateMany r k')"
  by (cases "Map_get r k")
     (auto simp: locateMany_def instances_def removeInstance_def Map_get_set Map_get_delete
        Let_def Set_size_def Set_delete_def)

lemma keys_addInstance: "set (Map_keys (addInstance k v r)) = insert k (set (Map_keys r))"
  by (cases "Map_get r k") (auto simp: addInstance_def Map_keys_set)

lemma keys_removeInstance: "set (Map_keys (removeInstance k v r)) \<subseteq> set (Map_keys r)"
  by (cases "Map_get r k")
     (auto simp: removeInstance_def Let_def Map_keys_set Map_keys_delete
        Map_get_keys [symmetric])

lemma registry_inv_iff:
  "registry_inv r = (\<forall>k. (k \<in> set (Map_keys r)) = (locateMany r k \<noteq> []))"
proof -
  have "locateMany r k \<noteq> [] \<Longrightarrow> k \<in> set (Map_keys r)" for k
    using Map_get_keys [of r k] by (auto simp: locateMany_def instances_def split: option.splits)
  then show ?thesis
    by (auto simp: registry_inv_def list_all_iff)
qed

lemma registry_inv_addInstance: "registry_inv r \<Longrightarrow> registry_inv (addInstance k v r)"
  by (auto simp: registry_inv_def list_all_iff keys_addInstance locateMany_addInstance
        Set_add_nonempty)

lemma removeInstance_key_pruned:
  "Set_delete v (locateMany r k) = [] \<Longrightarrow> k \<notin> set (Map_keys (removeInstance k v r))"
  by (cases "Map_get r k")
     (auto simp: removeInstance_def Let_def Map_keys_delete Set_size_def locateMany_def
        instances_def Map_get_keys [symmetric])

lemma registry_inv_removeInstance: "registry_inv r \<Longrightarrow> registry_inv (removeInstance k v r)"
proof -
  assume inv: "registry_inv r"
  have "locateMany (removeInstance k v r) k' \<noteq> []"
    if "k' \<in> set (Map_keys (removeInstance k v r))" for k'
  proof (cases "k' = k")
    case True
    with that removeInstance_key_pruned [of v r k] show ?thesis
      by (auto simp: locateMany_removeInstance)
  next
    case False
    from that keys_removeInstance [of k v r] have "k' \<in> set (Map_keys r)" by blast
    with inv False show ?thesis
      by (auto simp: registry_inv_def list_all_iff locateMany_removeInstance)
  qed
  then show ?thesis
    by (simp add: registry_inv_def list_all_iff)
qed

lemma registry_inv_bucket: "registry_inv r \<Longrightarrow> Map_get r k = Some s \<Longrightarrow> s \<noteq> []"
proof -
  assume inv: "registry_inv r" and get: "Map_get r k = Some s"
  from get have "k \<in> set (Map_keys r)"
    using Map_get_keys [of r k] by simp
  with inv have "locateMany r k \<noteq> []"
    by (simp add: registry_inv_def list_all_iff)
  with get show ?thesis
    by (simp add: locateMany_def instances_def)
qed

lemma addInstance_present: "v \<in> set (locateMany r k) \<Longrightarrow> addInstance k v r = r"
  by (cases "Map_get r k")
     (simp_all add: locateMany_def instances_def addInstance_def Set_add_present Map_set_same)

lemma removeInstance_no_key: "Map_get r k = None \<Longrightarrow> removeInstance k v r = r"
  by (simp add: removeInstance_def)

lemma removeInstance_absent:
  "registry_inv r \<Longrightarrow> v \<notin> set (locateMany r k) \<Longrightarrow> removeInstance k v r = r"
proof (cases "Map_get r k")
  case None
  then show ?thesis by (simp add: removeInstance_no_key)
next
  case (Some s)
  assume "registry_inv r" and "v \<notin> set (locateMany r k)"
  with Some have "s \<noteq> []" and "Set_delete v s = s"
    by (auto simp: registry_inv_bucket locateMany_def instances_def Set_delete_absent)
  with Some show ?thesis
    by (simp add: removeInstance_def Let_def Set_size_def Map_set_same)
qed

section \<open>Facts about the world\<close>

lemma trace_emit: "trace (emit e w) = trace w @ [e]"
  by (simp add: emit_def)

lemma store_emit: "store (emit e w) = store w"
  by (simp add: emit_def)

lemma trace_call_onBind: "trace (call_onBind f x w) = trace w @ [Bound x (store w)]"
  by (simp add: call_onBind_def trace_emit)

lemma store_call_onBind: "store (call_onBind f x w) = f x (store w)"
  by (simp add: call_onBind_def)

lemma trace_call_onUnbind: "trace (call_onUnbind f x w) = trace w @ [Unbound x (store w)]"
  by (simp add: call_onUnbind_def trace_emit)

lemma store_call_onUnbind: "store (call_onUnbind f x w) = f x (store w)"
  by (simp add: call_onUnbind_def)

lemma trace_notify:
  "trace (notifyOfViewLifecycle f args this w) =
     trace w @ (if funcResolver f (model this) then [Called f (model this) args (store w)] else [])"
  by (simp add: notifyOfViewLifecycle_def Let_def trace_emit)

lemma store_notify: "store (notifyOfViewLifecycle f args this w) = store w"
  by (simp add: notifyOfViewLifecycle_def Let_def store_emit)

lemma trace_notify_part000:
  "trace (notifyOfViewLifecycle_part000 f args this w) =
     trace w @ (if funcResolver f (model this)
                then [Called f (model this) [ArrayArg args] (store w)] else [])"
  by (simp add: notifyOfViewLifecycle_part000_def Let_def trace_emit)

lemma store_notify_part000: "store (notifyOfViewLifecycle_part000 f args this w) = store w"
  by (simp add: notifyOfViewLifecycle_part000_def Let_def store_emit)

lemma trace_hook_notify:
  "trace (hook_notifyOfViewLifecycle f x w) =
     trace w @ (if funcResolver f x then [Called f x [] (store w)] else [])"
  by (simp add: hook_notifyOfViewLifecycle_def Let_def trace_emit)

lemma store_hook_notify: "store (hook_notifyOfViewLifecycle f x w) = store w"
  by (simp add: hook_notifyOfViewLifecycle_def Let_def store_emit)

lemma fst_call_resolver: "fst (call_resolver r k p w) = r k p (length (filter is_Resolved (trace w)))"
  by (simp add: call_resolver_def Let_def)

lemma trace_call_resolver:
  "trace (snd (call_resolver r k p w)) =
     trace w @ [Resolved k p (r k p (length (filter is_Resolved (trace w)))) (store w)]"
  by (simp add: call_resolver_def Let_def trace_emit)

lemma store_call_resolver: "store (snd (call_resolver r k p w)) = store w"
  by (simp add: call_resolver_def Let_def store_emit)

lemma fst_resolveModel:
  "fst (resolveModel ps w) =
     (case viewModel ps of
        Some x \<Rightarrow> x
      | None \<Rightarrow> viewModelResolver ps (viewModelIdentifier ps) (Some (others ps))
                  (length (filter is_Resolved (trace w))))"
  by (simp add: resolveModel_def fst_call_resolver split: option.splits)

lemma trace_resolveModel:
  "trace (snd (resolveModel ps w)) =
     trace w @ (case viewModel ps of
                  Some x \<Rightarrow> []
                | None \<Rightarrow> [Resolved (viewModelIdentifier ps) (Some (others ps))
                             (fst (resolveModel ps w)) (store w)])"
  by (simp add: resolveModel_def fst_call_resolver trace_call_resolver split: option.splits)

lemma store_resolveModel: "store (snd (resolveModel ps w)) = store w"
  by (simp add: resolveModel_def store_call_resolver split: option.splits)



section \<open>The registry: claims C2, C3 and C7\<close>


text \<open>
  C3. The empty registry satisfies the invariant that an identifier is a key of the map
  exactly when its instance set is not empty (\<open>registry_inv\<close>, read by
  \<open>registry_inv_iff\<close>), \<open>addInstance\<close> and \<open>removeInstance\<close> preserve it, and removing
  the last instance under an identifier leaves a snapshot without that key.
\<close>

theorem C3_registry_invariant:
  "registry_inv (new_registry :: ('k, 'v) registry) \<and>
   (registry_inv (r :: ('k, 'v) registry) \<longrightarrow>
      registry_inv (addInstance k v r) \<and> registry_inv (removeInstance k v r)) \<and>
   (set (locateMany r k) \<subseteq> {v} \<longrightarrow> k \<notin> set (Map_keys (instances (removeInstance k v r))))"
proof -
  have "registry_inv (new_registry :: ('k, 'v) registry)"
    by (simp add: registry_inv_def new_registry_def Map_keys_def)
  moreover have "Set_delete v (locateMany r k) = []" if "set (locateMany r k) \<subseteq> {v}"
    using that by (rule Set_delete_last)
  ultimately show ?thesis
    by (simp add: registry_inv_addInstance registry_inv_removeInstance
          removeInstance_key_pruned instances_def)
qed

theorem C3_registry_invariant_witness:
  "registry_inv [(''UserVM'', [1::nat])] \<and>
   registry_inv (addInstance ''UserVM'' 2 [(''UserVM'', [1::nat])]) \<and>
   registry_inv (removeInstance ''UserVM'' 1 [(''UserVM'', [1::nat])]) \<and>
   set (locateMany [(''UserVM'', [1::nat])] ''UserVM'') \<subseteq> {1} \<and>
   ''UserVM'' \<notin> set (Map_keys (instances (removeInstance ''UserVM'' 1 [(''UserVM'', [1::nat])])))"
  using C3_registry_invariant [of "[(''UserVM'', [1::nat])]" "''UserVM''" 2]
    C3_registry_invariant [of "[(''UserVM'', [1::nat])]" "''UserVM''" 1]
  by (simp add: registry_inv_def Map_keys_def locateMany_def instances_def)

text \<open>
  C7. The registry operations are total functions with no failing branch. \<open>addInstance\<close>
  of an instance already in the identifier's set leaves the registry unchanged;
  \<open>removeInstance\<close> leaves it unchanged when the identifier is absent, and, in a registry
  without empty sets (every state the operations build), when the instance is absent;
  \<open>instances\<close> hands out the registry's map as it is.
\<close>

theorem C7_registry_noops:
  "(v \<in> set (locateMany r k) \<longrightarrow> addInstance k v r = r) \<and>
   (Map_get r k = None \<longrightarrow> removeInstance k v r = r) \<and>
   (registry_inv r \<longrightarrow> v \<notin> set (locateMany r k) \<longrightarrow> removeInstance k v r = r) \<and>
   instances r = r"
  by (simp add: addInstance_present removeInstance_no_key removeInstance_absent instances_def)

theorem C7_registry_noops_witness:
  "(1::nat) \<in> set (locateMany [(''UserVM'', [1, 2])] ''UserVM'') \<and>
   addInstance ''UserVM'' 1 [(''UserVM'', [1::nat, 2])] = [(''UserVM'', [1, 2])] \<and>
   Map_get [(''UserVM'', [1::nat, 2])] ''Other'' = None \<and>
   removeInstance ''Other'' 1 [(''UserVM'', [1::nat, 2])] = [(''UserVM'', [1, 2])] \<and>
   registry_inv [(''UserVM'', [1::nat, 2])] \<and>
   (3::nat) \<notin> set (locateMany [(''UserVM'', [1, 2])] ''UserVM'') \<and>
   removeInstance ''UserVM'' 3 [(''UserVM'', [1::nat, 2])] = [(''UserVM'', [1, 2])]"
  using C7_registry_noops [of 1 "[(''UserVM'', [1::nat, 2])]" "''UserVM''"]
    C7_registry_noops [of 1 "[(''UserVM'', [1::nat, 2])]" "''Other''"]
    C7_registry_noops [of 3 "[(''UserVM'', [1::nat, 2])]" "''UserVM''"]
  by (simp add: registry_inv_def Map_keys_def locateMany_def instances_def)

section \<open>Facts about the Binder\<close>

lemma bindViewModel_UserVM:
  "bindViewModel ''UserVM'' (mp, ()) (provided res) = Inr (UserVM_props mp res)"
  by (simp add: bindViewModel_def provided_def UserVM_props_def)

lemma componentDidMount_dispatch:
  "emitted w (componentDidMount this w) =
     (if onActivate (model this)
      then [Called OnActivate (model this) [PropsArg (props this)] (store w)] else []) @
     (if onViewLoaded (model this)
      then [Called OnViewLoaded (model this) [RefArg] (store w)] else []) \<and>
   store (componentDidMount this w) = store w"
  by (simp add: emitted_def componentDidMount_def Let_def trace_notify store_notify)

lemma componentDidMount_bare:
  "componentDidMount \<lparr>props = ps, model = bare\<rparr> w = w"
  by (simp add: componentDidMount_def notifyOfViewLifecycle_def bare_def)

lemma Binder_constructor_eq:
  "Binder_constructor ps w =
     (\<lparr>props = ps, model = fst (resolveModel ps w)\<rparr>,
      call_onBind (onBind ps) (fst (resolveModel ps w)) (snd (resolveModel ps w)))"
  by (simp add: Binder_constructor_def Let_def split: prod.splits)






section \<open>The Binder: claims C1, C4, C5 and C6\<close>







text \<open>
  C5. In the Binder of \<^verbatim>\<open>mxvm.tsx\<close>, \<^verbatim>\<open>componentDidMount\<close> calls \<^verbatim>\<open>onActivate(props)\<close> and
  then \<^verbatim>\<open>onViewLoaded(viewRef)\<close> on the bound instance, each only if the instance has the
  method (\<open>componentDidMount_dispatch\<close>). The Binder of the second source file keeps the
  order and the test, but its methods receive the rest array itself: \<^verbatim>\<open>onActivate([props])\<close>
  and \<^verbatim>\<open>onViewLoaded([viewRef])\<close>. Both Binders are mounted here with the same props.
\<close>

theorem C5_part000_mount_arguments:
  "emitted (world_of new_registry)
     (snd (Binder_mount_part000 (UserVM_props (Some u1) (singleton_resolver u2))
        (world_of new_registry))) =
   [Bound u1 [],
    Called OnActivate u1 [ArrayArg [PropsArg (UserVM_props (Some u1) (singleton_resolver u2))]]
      [(''UserVM'', [u1])],
    Called OnViewLoaded u1 [ArrayArg [RefArg]] [(''UserVM'', [u1])]] \<and>
   emitted (world_of new_registry)
     (snd (Binder_mount (UserVM_props (Some u1) (singleton_resolver u2))
        (world_of new_registry))) =
   [Bound u1 [],
    Called OnActivate u1 [PropsArg (UserVM_props (Some u1) (singleton_resolver u2))]
      [(''UserVM'', [u1])],
    Called OnViewLoaded u1 [RefArg] [(''UserVM'', [u1])]]"
  by (simp add: Binder_mount_part000_def Binder_mount_def Binder_constructor_eq Let_def
        emitted_def componentWillMount_part000_def componentDidMount_part000_def
        componentDidMount_def trace_notify store_notify
        trace_notify_part000 store_notify_part000 trace_call_onBind store_call_onBind
        fst_resolveModel trace_resolveModel store_resolveModel
        UserVM_props_def world_of_def new_registry_def u1_def
        DefaultViewModelRegistry_def addInstance_def Set_add_def)



section \<open>Configuration errors: claim C8\<close>

text \<open>
  C8. Rendering a component made by \<^verbatim>\<open>bindViewModel\<close>, or calling \<^verbatim>\<open>useViewModel\<close>, under a
  context without a resolver or without a registry ends in the error of the missing part
  (the resolver is checked first) in place of a Binder element or a bound model; with both
  present neither ends in an error.
\<close>

theorem C8_configuration_errors:
  "(resolver ctx = None \<longrightarrow>
      bindViewModel k a ctx = Inl (Error ''Resolver has not been provided!'') \<and>
      useViewModel k ctx h w = Inl (Error ''Resolver has not been provided!'')) \<and>
   (resolver ctx \<noteq> None \<and> registry ctx = None \<longrightarrow>
      bindViewModel k a ctx = Inl (Error ''Registry has not been provided!'') \<and>
      useViewModel k ctx h w = Inl (Error ''Registry has not been provided!'')) \<and>
   (resolver ctx \<noteq> None \<and> registry ctx \<noteq> None \<longrightarrow>
      (\<forall>e. bindViewModel k a ctx \<noteq> Inl e) \<and> (\<forall>e. useViewModel k ctx h w \<noteq> Inl e))"
  by (cases a) (auto simp: bindViewModel_def useViewModel_def split: option.splits)

theorem C8_configuration_errors_witness:
  "resolver (default_context :: (string, unit, (string, vm) registry) MxvmContextProps) = None \<and>
   bindViewModel ''UserVM'' (None, ())
     (default_context :: (string, unit, (string, vm) registry) MxvmContextProps) =
     Inl (Error ''Resolver has not been provided!'') \<and>
   useViewModel ''UserVM''
     (default_context :: (string, unit, (string, vm) registry) MxvmContextProps)
     no_hooks (world_of []) = Inl (Error ''Resolver has not been provided!'') \<and>
   resolver (provided factory_resolver\<lparr>registry := None\<rparr>) \<noteq> None \<and>
   registry (provided factory_resolver\<lparr>registry := None\<rparr>) = None \<and>
   bindViewModel ''UserVM'' (None, ()) (provided factory_resolver\<lparr>registry := None\<rparr>) =
     Inl (Error ''Registry has not been provided!'') \<and>
   useViewModel ''UserVM'' (provided factory_resolver\<lparr>registry := None\<rparr>)
     no_hooks (world_of []) = Inl (Error ''Registry has not been provided!'') \<and>
   resolver (provided factory_resolver) \<noteq> None \<and>
   registry (provided factory_resolver) \<noteq> None \<and>
   bindViewModel ''UserVM'' (None, ()) (provided factory_resolver) =
     Inr (UserVM_props None factory_resolver)"
  using C8_configuration_errors [of default_context "''UserVM''" "(None, ())" no_hooks
      "world_of []"]
    C8_configuration_errors [of "provided factory_resolver\<lparr>registry := None\<rparr>" "''UserVM''"
      "(None, ())" no_hooks "world_of []"]
    C8_configuration_errors [of "provided factory_resolver" "''UserVM''" "(None, ())" no_hooks
      "world_of []"]
  by (simp add: default_context_def provided_def bindViewModel_UserVM [unfolded provided_def])

section \<open>Facts about the hook\<close>

lemma useBinder_eq:
  "useBinder ps h w =
     (let initial = u_viewModelResolver ps (u_viewModelIdentifier ps) None
                      (length (filter is_Resolved (trace w)));
          x = (case state_cell h of None \<Rightarrow> initial | Some x0 \<Rightarrow> x0)
      in (x,
          \<lparr>state_cell = Some x,
           effect_cell = (case effect_cell h of None \<Rightarrow> Some (ps, x) | Some e \<Rightarrow> Some e)\<rparr>,
          emit (Resolved (u_viewModelIdentifier ps) None initial (store w)) w))"
  by (simp add: useBinder_def call_resolver_def Let_def)

lemma hook_rerenders_kept:
  "\<exists>evs. list_all is_Resolved evs \<and>
     hook_rerenders pss \<lparr>state_cell = Some x, effect_cell = Some e\<rparr>
         (w :: ('k, 'p, 's) world) =
       (replicate (length pss) x, \<lparr>state_cell = Some x, effect_cell = Some e\<rparr>,
        w\<lparr>trace := trace w @ evs\<rparr>)"
proof (induction pss arbitrary: w)
  case Nil
  show ?case
    by (rule exI [of _ "[]"]) simp
next
  case (Cons ps pss)
  define ev :: "('k, 'p, 's) event" where "ev = Resolved (u_viewModelIdentifier ps) None
               (u_viewModelResolver ps (u_viewModelIdentifier ps) None
                  (length (filter is_Resolved (trace w)))) (store w)"
  define w1 where "w1 = emit ev w"
  have step: "useBinder ps \<lparr>state_cell = Some x, effect_cell = Some e\<rparr> w =
                (x, \<lparr>state_cell = Some x, effect_cell = Some e\<rparr>, w1)"
    by (simp add: useBinder_eq Let_def w1_def ev_def)
  from Cons.IH [of w1] obtain evs where
    evs: "list_all is_Resolved evs"
    and run: "hook_rerenders pss \<lparr>state_cell = Some x, effect_cell = Some e\<rparr> w1 =
       (replicate (length pss) x, \<lparr>state_cell = Some x, effect_cell = Some e\<rparr>,
        w1\<lparr>trace := trace w1 @ evs\<rparr>)"
    by blast
  have w1: "w1\<lparr>trace := trace w1 @ evs\<rparr> = w\<lparr>trace := trace w @ ev # evs\<rparr>"
    by (simp add: w1_def emit_def)
  have "list_all is_Resolved (ev # evs)"
    by (simp add: evs ev_def)
  moreover have "hook_rerenders (ps # pss) \<lparr>state_cell = Some x, effect_cell = Some e\<rparr> w =
       (replicate (length (ps # pss)) x, \<lparr>state_cell = Some x, effect_cell = Some e\<rparr>,
        w\<lparr>trace := trace w @ ev # evs\<rparr>)"
    by (simp add: step run w1)
  ultimately show ?case
    by blast
qed

lemma hook_cycle_run:
  fixes ps :: "('k, 'p, 's) UseBinderProps" and w :: "('k, 'p, 's) world"
  defines "x \<equiv> u_viewModelResolver ps (u_viewModelIdentifier ps) None
                 (length (filter is_Resolved (trace w)))"
  defines "s1 \<equiv> u_onBind ps x (store w)"
  shows "\<exists>evs. list_all is_Resolved evs \<and>
           hook_cycle ps pss w =
             (replicate (Suc (length pss)) x,
              \<lparr>store = u_onUnbind ps x s1,
               trace = trace w @
                 [Resolved (u_viewModelIdentifier ps) None x (store w), Bound x (store w)] @
                 (if onActivate x then [Called OnActivate x [] s1] else []) @
                 evs @
                 (if onDeactivate x then [Called OnDeactivate x [] s1] else []) @
                 [Unbound x s1]\<rparr>)"
proof -
  let ?h = "\<lparr>state_cell = Some x, effect_cell = Some (ps, x)\<rparr>"
  define w1 where "w1 = hook_notifyOfViewLifecycle OnActivate x
               (call_onBind (u_onBind ps) x
                  (emit (Resolved (u_viewModelIdentifier ps) None x (store w)) w))"
  have mount: "hook_mount ps w = (x, ?h, w1)"
    by (simp add: hook_mount_def useBinder_eq Let_def no_hooks_def useBinder_effect_def x_def
          w1_def)
  obtain evs where evs: "list_all is_Resolved evs"
    and run: "hook_rerenders pss ?h w1 =
                (replicate (length pss) x, ?h, w1\<lparr>trace := trace w1 @ evs\<rparr>)"
    using hook_rerenders_kept [of pss x "(ps, x)" w1] by blast
  have s1: "store w1 = s1"
    by (simp add: w1_def store_hook_notify store_call_onBind store_emit s1_def)
  have t1: "trace w1 = trace w @
              [Resolved (u_viewModelIdentifier ps) None x (store w), Bound x (store w)] @
              (if onActivate x then [Called OnActivate x [] s1] else [])"
    by (simp add: w1_def trace_hook_notify trace_call_onBind store_call_onBind trace_emit
          store_emit s1_def)
  define w2 where "w2 = w1\<lparr>trace := trace w1 @ evs\<rparr>"
  have s2: "store w2 = s1" and t2: "trace w2 = trace w1 @ evs"
    by (simp_all add: w2_def s1)
  have cyc: "hook_cycle ps pss w = (replicate (Suc (length pss)) x, hook_unmount ?h w2)"
    by (simp add: hook_cycle_def mount run w2_def)
  have su: "store (hook_unmount ?h w2) = u_onUnbind ps x s1"
    by (simp add: hook_unmount_def useBinder_cleanup_def store_call_onUnbind
          store_hook_notify s2)
  have tu: "trace (hook_unmount ?h w2) = trace w @
         [Resolved (u_viewModelIdentifier ps) None x (store w), Bound x (store w)] @
         (if onActivate x then [Called OnActivate x [] s1] else []) @
         evs @
         (if onDeactivate x then [Called OnDeactivate x [] s1] else []) @
         [Unbound x s1]"
    by (simp add: hook_unmount_def useBinder_cleanup_def trace_call_onUnbind
          trace_hook_notify store_hook_notify s2 t2 t1)
  have "hook_unmount ?h w2 =
          \<lparr>store = store (hook_unmount ?h w2), trace = trace (hook_unmount ?h w2)\<rparr>"
    by simp
  with cyc su tu evs show ?thesis
    by (intro exI [of _ evs]) simp
qed


lemma filter_not_Resolved: "list_all is_Resolved evs \<Longrightarrow> filter (\<lambda>e. \<not> is_Resolved e) evs = []"
  by (induction evs) auto

lemma Resolved_not_Called: "is_Resolved e \<Longrightarrow> \<not> is_Called e"
  by (cases e) auto

lemma dispatches_Called: "dispatches f e \<Longrightarrow> is_Called e"
  by (cases e) auto

lemma filter_Called_Resolved: "list_all is_Resolved evs \<Longrightarrow> filter is_Called evs = []"
  by (induction evs) (auto simp: Resolved_not_Called)

lemma filter_dispatches_Resolved: "list_all is_Resolved evs \<Longrightarrow> filter (dispatches f) evs = []"
  by (induction evs) (auto dest: dispatches_Called simp: Resolved_not_Called)

text \<open>
  A first render for \<open>''UserVM''\<close> with the factory resolver, a second render whose props
  name another identifier and another resolver, then the unmount: the second render calls
  its resolver and drops the answer.
\<close>

lemma hook_cycle_example:
  "hook_cycle
     \<lparr>u_viewModelIdentifier = ''UserVM'', u_viewModelResolver = factory_resolver,
      u_onUnbind = removeInstance ''UserVM'', u_onBind = addInstance ''UserVM''\<rparr>
     [\<lparr>u_viewModelIdentifier = ''Other'', u_viewModelResolver = singleton_resolver u2,
       u_onUnbind = removeInstance ''Other'', u_onBind = addInstance ''Other''\<rparr>]
     (world_of []) =
   ([factory_resolver ''UserVM'' None 0, factory_resolver ''UserVM'' None 0],
    \<lparr>store = [],
     trace =
       [Resolved ''UserVM'' None (factory_resolver ''UserVM'' None 0) [],
        Bound (factory_resolver ''UserVM'' None 0) [],
        Called OnActivate (factory_resolver ''UserVM'' None 0) []
          [(''UserVM'', [factory_resolver ''UserVM'' None 0])],
        Resolved ''Other'' None u2 [(''UserVM'', [factory_resolver ''UserVM'' None 0])],
        Called OnDeactivate (factory_resolver ''UserVM'' None 0) []
          [(''UserVM'', [factory_resolver ''UserVM'' None 0])],
        Unbound (factory_resolver ''UserVM'' None 0)
          [(''UserVM'', [factory_resolver ''UserVM'' None 0])]]\<rparr>)"
  by (simp add: hook_cycle_def hook_mount_def hook_unmount_def useBinder_eq Let_def
        no_hooks_def useBinder_effect_def useBinder_cleanup_def
        hook_notifyOfViewLifecycle_def call_onBind_def call_onUnbind_def emit_def
        world_of_def factory_resolver_def singleton_resolver_def
        addInstance_def removeInstance_def Set_add_def Set_delete_def Set_size_def)

section \<open>The hook: claims C9 and C10\<close>

text \<open>
  C9. In every life of a component that calls \<^verbatim>\<open>useBinder\<close> (a mount, any number of
  renders with any props, the unmount), every render returns the model the first render
  resolved, and apart from the resolver calls the hook does exactly this: \<^verbatim>\<open>onBind\<close> once
  and then \<^verbatim>\<open>onActivate\<close> (if the model has it) at mount, \<^verbatim>\<open>onDeactivate\<close> (if the model
  has it) and then \<^verbatim>\<open>onUnbind\<close> once at unmount, both with the callbacks of the first
  render.
\<close>

theorem C9_hook_once_per_mount:
  fixes ps :: "('k, 'p, 's) UseBinderProps" and w :: "('k, 'p, 's) world"
  defines "x \<equiv> u_viewModelResolver ps (u_viewModelIdentifier ps) None
                 (length (filter is_Resolved (trace w)))"
  defines "s1 \<equiv> u_onBind ps x (store w)"
  shows "fst (hook_cycle ps pss w) = replicate (Suc (length pss)) x \<and>
         filter (\<lambda>e. \<not> is_Resolved e) (emitted w (snd (hook_cycle ps pss w))) =
           [Bound x (store w)] @
           (if onActivate x then [Called OnActivate x [] s1] else []) @
           (if onDeactivate x then [Called OnDeactivate x [] s1] else []) @
           [Unbound x s1] \<and>
         store (snd (hook_cycle ps pss w)) = u_onUnbind ps x s1"
proof -
  from hook_cycle_run [of ps pss w] obtain evs where evs: "list_all is_Resolved evs"
    and run: "hook_cycle ps pss w =
             (replicate (Suc (length pss)) x,
              \<lparr>store = u_onUnbind ps x s1,
               trace = trace w @
                 [Resolved (u_viewModelIdentifier ps) None x (store w), Bound x (store w)] @
                 (if onActivate x then [Called OnActivate x [] s1] else []) @
                 evs @
                 (if onDeactivate x then [Called OnDeactivate x [] s1] else []) @
                 [Unbound x s1]\<rparr>)"
    unfolding x_def s1_def by blast
  show ?thesis
    by (simp add: run emitted_def filter_not_Resolved [OF evs])
qed

text \<open>
  C10. The lifecycle calls of the hook over a whole life are \<^verbatim>\<open>onActivate\<close> at mount and
  \<^verbatim>\<open>onDeactivate\<close> at unmount, each if the model has the method, and nothing else:
  \<^verbatim>\<open>onViewLoaded\<close> is never called, whether or not the model has it, whereas
  \<^verbatim>\<open>componentDidMount\<close> of the Binder class calls it on a model that has it.
\<close>

theorem C10_hook_never_onViewLoaded:
  fixes ps :: "('k, 'p, 's) UseBinderProps" and w :: "('k, 'p, 's) world"
    and this :: "('k, 'p, 's) Binder" and w' :: "('k, 'p, 's) world"
  defines "x \<equiv> u_viewModelResolver ps (u_viewModelIdentifier ps) None
                 (length (filter is_Resolved (trace w)))"
  defines "s1 \<equiv> u_onBind ps x (store w)"
  shows "filter is_Called (emitted w (snd (hook_cycle ps pss w))) =
           (if onActivate x then [Called OnActivate x [] s1] else []) @
           (if onDeactivate x then [Called OnDeactivate x [] s1] else []) \<and>
         filter (dispatches OnViewLoaded) (emitted w (snd (hook_cycle ps pss w))) = [] \<and>
         filter (dispatches OnViewLoaded) (emitted w' (componentDidMount this w')) =
           (if onViewLoaded (model this)
            then [Called OnViewLoaded (model this) [RefArg] (store w')] else [])"
proof -
  from hook_cycle_run [of ps pss w] obtain evs where evs: "list_all is_Resolved evs"
    and run: "hook_cycle ps pss w =
             (replicate (Suc (length pss)) x,
              \<lparr>store = u_onUnbind ps x s1,
               trace = trace w @
                 [Resolved (u_viewModelIdentifier ps) None x (store w), Bound x (store w)] @
                 (if onActivate x then [Called OnActivate x [] s1] else []) @
                 evs @
                 (if onDeactivate x then [Called OnDeactivate x [] s1] else []) @
                 [Unbound x s1]\<rparr>)"
    unfolding x_def s1_def by blast
  have mounted: "emitted w' (componentDidMount this w') =
     (if onActivate (model this)
      then [Called OnActivate (model this) [PropsArg (props this)] (store w')] else []) @
     (if onViewLoaded (model this)
      then [Called OnViewLoaded (model this) [RefArg] (store w')] else [])"
    using componentDidMount_dispatch [of w' this] by simp
  have hook: "filter is_Called (emitted w (snd (hook_cycle ps pss w))) =
           (if onActivate x then [Called OnActivate x [] s1] else []) @
           (if onDeactivate x then [Called OnDeactivate x [] s1] else [])"
    and none: "filter (dispatches OnViewLoaded) (emitted w (snd (hook_cycle ps pss w))) = []"
    by (simp_all add: run emitted_def filter_Called_Resolved [OF evs]
          filter_dispatches_Resolved [OF evs])
  have cls: "filter (dispatches OnViewLoaded) (emitted w' (componentDidMount this w')) =
           (if onViewLoaded (model this)
            then [Called OnViewLoaded (model this) [RefArg] (store w')] else [])"
    by (simp add: mounted)
  from hook none cls show ?thesis
    by (intro conjI)
qed

end
